theory Spec2Isabelle
  imports Main
begin

section \<open>Data model\<close>

text \<open>
  A string is the list of its characters, a character beyond ASCII being the bytes of its
  UTF-8 form; the patterns and the separators of the code are ASCII. An optional field is an
  \<open>option\<close>: \<open>None\<close> where the field is missing, \<^verbatim>\<open>undefined\<close> or \<^verbatim>\<open>null\<close>.

  The values of a parameter object (\<^verbatim>\<open>Record<string, string | number | boolean>\<close>).
  A number is modelled by an integer and stands for a safe integer (at most \<open>2^53 - 1\<close> in
  absolute value), which \<^verbatim>\<open>String\<close> prints in plain decimal digits. Fractions and the numbers
  that \<^verbatim>\<open>String\<close> prints with an exponent are outside the model; the statements
  below meet the string of a number only at small integers.
\<close>

datatype scalar = SString string | SNumber int | SBoolean bool

text \<open>
  A parameter object is a plain object: the list of its own entries, in the order of
  \<^verbatim>\<open>Object.entries\<close>, with \<^verbatim>\<open>Object.prototype\<close> as its prototype.
\<close>

type_synonym params = "(string \<times> scalar) list"

text \<open>
  The members of \<^verbatim>\<open>Object.prototype\<close>, each with the text that \<^verbatim>\<open>String\<close> makes of it: the
  built-in functions as Node prints them, and \<^verbatim>\<open>__proto__\<close>, which reads the prototype itself.
\<close>

definition native_function :: "string \<Rightarrow> string" where
  "native_function f = ''function '' @ f @ ''() { [native code] }''"

definition objectPrototype :: "(string \<times> string) list" where
  "objectPrototype =
     (''constructor'', native_function ''Object'')
     # (''__proto__'', ''[object Object]'')
     # map (\<lambda>f. (f, native_function f))
         [''__defineGetter__'', ''__defineSetter__'', ''hasOwnProperty'', ''__lookupGetter__'',
          ''__lookupSetter__'', ''isPrototypeOf'', ''propertyIsEnumerable'', ''toString'',
          ''valueOf'', ''toLocaleString'']"

text \<open>
  What \<^verbatim>\<open>params[k]\<close> reads: the value of the own entry of key \<open>k\<close>; without one, the member of
  that name inherited from the prototype, kept as its text; \<^verbatim>\<open>undefined\<close> (\<open>None\<close>) where there
  is neither.
\<close>

datatype property = Own scalar | Inherited string

definition getProperty :: "params \<Rightarrow> string \<Rightarrow> property option" where
  "getProperty params k =
     (case map_of params k of
        Some v \<Rightarrow> Some (Own v)
      | None \<Rightarrow> map_option Inherited (map_of objectPrototype k))"

datatype dataType = STRING | NUMBER | EMAIL | URL | BOOLEAN

record TemplateParameter =
  name :: string
  dataType :: "dataType option"
  required :: "bool option"
  defaultValue :: "scalar option"
  description :: "string option"
  hidden :: "bool option"

datatype recordType = A | AAAA | CNAME | TXT | SRV | MX | NS | SPFM | PTR

record TemplateRecord =
  type :: recordType
  host :: string
  pointsTo :: "string option"
  ttl :: "int option"
  priority :: "int option"
  weight :: "int option"
  port :: "int option"

record Template =
  providerId :: string
  serviceId :: string
  name :: "string option"
  description :: "string option"
  version :: "string option"
  hostRequired :: "bool option"
  parameters :: "TemplateParameter list option"
  records :: "TemplateRecord list"
  logoUrl :: "string option"
  syncSupported :: "bool option"
  asyncSupported :: "bool option"

section \<open>Truthiness and string conversion\<close>

text \<open>An optional string is truthy when it is there and not empty; an optional flag when it is \<open>true\<close>.\<close>

definition truthy_string :: "string option \<Rightarrow> bool" where
  "truthy_string s = (case s of None \<Rightarrow> False | Some v \<Rightarrow> v \<noteq> [])"

text \<open>The string of an optional string that was found truthy.\<close>

definition string_value :: "string option \<Rightarrow> string" where
  "string_value s = (case s of None \<Rightarrow> [] | Some v \<Rightarrow> v)"

definition truthy_bool :: "bool option \<Rightarrow> bool" where
  "truthy_bool b = (case b of None \<Rightarrow> False | Some v \<Rightarrow> v)"

definition digit_char :: "nat \<Rightarrow> char" where
  "digit_char d = char_of (48 + d)"

function string_of_nat :: "nat \<Rightarrow> string" where
  "string_of_nat n =
     (if n < 10 then [digit_char n] else string_of_nat (n div 10) @ [digit_char (n mod 10)])"
  by pat_completeness auto
termination
  by (relation "measure id") auto

declare string_of_nat.simps [simp del]

text \<open>\<^verbatim>\<open>String(value)\<close> for the three kinds of value.\<close>

fun String_of :: "scalar \<Rightarrow> string" where
  "String_of (SString s) = s"
| "String_of (SNumber i) =
     (if i < 0 then CHR ''-'' # string_of_nat (nat (- i)) else string_of_nat (nat i))"
| "String_of (SBoolean b) = (if b then ''true'' else ''false'')"

text \<open>\<^verbatim>\<open>String(params[k])\<close> for what \<^verbatim>\<open>params[k]\<close> has read.\<close>

fun String_of_property :: "property \<Rightarrow> string" where
  "String_of_property (Own v) = String_of v"
| "String_of_property (Inherited member) = member"

section \<open>Variable substitution\<close>

text \<open>The character class \<^verbatim>\<open>[a-zA-Z0-9_]\<close>.\<close>

definition isVarChar :: "char \<Rightarrow> bool" where
  "isVarChar c =
     (let n = (of_char c :: nat)
      in (97 \<le> n \<and> n \<le> 122) \<or> (65 \<le> n \<and> n \<le> 90) \<or> (48 \<le> n \<and> n \<le> 57) \<or> n = 95)"

text \<open>
  \<^verbatim>\<open>text.replace(/%([a-zA-Z0-9_]+)%/g, (match, varName) => ...)\<close>: at a \<^verbatim>\<open>%\<close> the
  longest run of name characters is read; the pattern matches there when the run is not empty
  and a \<^verbatim>\<open>%\<close> follows it. After a match the scan goes on behind the closing \<^verbatim>\<open>%\<close>;
  otherwise the character is copied and the scan goes on with the next one. The callback
  tests \<^verbatim>\<open>params[varName] !== undefined\<close>, which an inherited member passes too.
\<close>

function replaceVariables :: "string \<Rightarrow> params \<Rightarrow> string" where
  "replaceVariables [] params = []"
| "replaceVariables (c # cs) params =
     (let varName = takeWhile isVarChar cs; rest = dropWhile isVarChar cs
      in if c = CHR ''%'' \<and> varName \<noteq> [] \<and> rest \<noteq> [] \<and> hd rest = CHR ''%''
         then (case getProperty params varName of
                 Some v \<Rightarrow> String_of_property v
               | None \<Rightarrow> c # varName @ [CHR ''%''])
              @ replaceVariables (tl rest) params
         else c # replaceVariables cs params)"
  by pat_completeness auto
termination
  by (relation "measure (\<lambda>(t, p). length t)")
     (auto simp: less_Suc_eq_le intro: le_trans [OF diff_le_self length_dropWhile_le])

declare replaceVariables.simps(2) [simp del]

text \<open>
  The pattern \<^verbatim>\<open>%[A-Za-z0-9_]+%\<close> matches at position \<open>i\<close> of a text: a \<^verbatim>\<open>%\<close> stands there,
  a non-empty run of name characters follows, and a \<^verbatim>\<open>%\<close> ends the run.
\<close>

definition matchAt :: "string \<Rightarrow> nat \<Rightarrow> bool" where
  "matchAt text i =
     (let tail = drop i text
      in tail \<noteq> [] \<and> hd tail = CHR ''%'' \<and> takeWhile isVarChar (tl tail) \<noteq> []
         \<and> dropWhile isVarChar (tl tail) \<noteq> []
         \<and> hd (dropWhile isVarChar (tl tail)) = CHR ''%'')"

section \<open>Parameter validation\<close>

text \<open>
  The filter tests \<^verbatim>\<open>param.required && params[param.name] === undefined\<close>; the names that are
  left are the missing ones.
\<close>

definition validateParameters :: "Template \<Rightarrow> params \<Rightarrow> bool \<times> string list" where
  "validateParameters template params =
     (case parameters template of
        None \<Rightarrow> (True, [])
      | Some ps \<Rightarrow>
          (let missingParams =
                 map TemplateParameter.name
                   (filter (\<lambda>param. truthy_bool (required param)
                                   \<and> getProperty params (TemplateParameter.name param) = None) ps)
           in (length missingParams = 0, missingParams)))"

text \<open>
  The template of the validator's unit tests, with two more parameters, and a template that
  requires a parameter of the name \<open>toString\<close>.
\<close>

definition ex_param :: "string \<Rightarrow> bool option \<Rightarrow> TemplateParameter" where
  "ex_param n r = \<lparr> TemplateParameter.name = n, dataType = None, required = r, defaultValue = None,
                     description = None, hidden = None \<rparr>"

definition ex_template :: Template where
  "ex_template = \<lparr> providerId = ''example-provider'', serviceId = ''example-service'',
      name = None, description = None, version = None, hostRequired = None,
      parameters = Some [ex_param ''required1'' (Some True), ex_param ''optional'' (Some False),
                         ex_param ''required2'' (Some True), ex_param ''count'' (Some True),
                         ex_param ''plain'' None],
      records = [], logoUrl = None, syncSupported = None, asyncSupported = None \<rparr>"

definition ex_toString_template :: Template where
  "ex_toString_template = ex_template \<lparr> parameters := Some [ex_param ''toString'' (Some True)] \<rparr>"

section \<open>Record resolution\<close>

text \<open>
  One step of \<^verbatim>\<open>template.records.map(record => ...)\<close>: the copy of the record is updated
  field by field, in the order of the source. The caller's host is optional; it is used only
  when it is truthy, that is, given and not empty.
\<close>

definition generateRecord :: "params \<Rightarrow> string option \<Rightarrow> TemplateRecord \<Rightarrow> TemplateRecord" where
  "generateRecord params callerHost record =
     (let resolvedRecord = record;
          resolvedRecord = resolvedRecord\<lparr>host := replaceVariables (host record) params\<rparr>;
          resolvedRecord =
            (case callerHost of
               Some h \<Rightarrow>
                 if h \<noteq> [] then
                   (if host resolvedRecord = ''@'' then resolvedRecord\<lparr>host := h\<rparr>
                    else if host resolvedRecord \<noteq> ''%host%''
                    then resolvedRecord\<lparr>host := host resolvedRecord @ ''.'' @ h\<rparr>
                    else resolvedRecord)
                 else resolvedRecord
             | None \<Rightarrow> resolvedRecord);
          resolvedRecord =
            (if host resolvedRecord = ''%host%'' \<and> truthy_string callerHost
             then resolvedRecord\<lparr>host := string_value callerHost\<rparr>
             else if host resolvedRecord = ''%host%'' \<and> \<not> truthy_string callerHost
             then resolvedRecord\<lparr>host := ''@''\<rparr>
             else resolvedRecord);
          resolvedRecord =
            (if truthy_string (pointsTo resolvedRecord)
             then resolvedRecord\<lparr>pointsTo :=
                    Some (replaceVariables
                            (if truthy_string (pointsTo record)
                             then string_value (pointsTo record)
                             else []) params)\<rparr>
             else resolvedRecord)
      in resolvedRecord)"

definition generateRecords ::
  "Template \<Rightarrow> params \<Rightarrow> string \<Rightarrow> string option \<Rightarrow> TemplateRecord list" where
  "generateRecords template params domain callerHost =
     map (generateRecord params callerHost) (records template)"

text \<open>
  The resolution of the host as the specification words it: substitution first, then the
  concatenation under a caller host that leaves \<^verbatim>\<open>%host%\<close> alone, then the sentinel.
\<close>

definition resolveHost_spec :: "string \<Rightarrow> params \<Rightarrow> string option \<Rightarrow> string" where
  "resolveHost_spec rawHost params callerHost =
     (let resolvedHost = replaceVariables rawHost params;
          resolvedHost =
            (case callerHost of
               None \<Rightarrow> resolvedHost
             | Some h \<Rightarrow>
                 if h = [] then resolvedHost
                 else if resolvedHost = ''@'' then h
                 else if resolvedHost \<noteq> ''%host%'' then resolvedHost @ ''.'' @ h
                 else resolvedHost)
      in if resolvedHost = ''%host%''
         then (case callerHost of None \<Rightarrow> ''@'' | Some h \<Rightarrow> if h = [] then ''@'' else h)
         else resolvedHost)"

text \<open>The template and the parameters of the unit tests of the record resolver.\<close>

definition ex_record :: "recordType \<Rightarrow> string \<Rightarrow> string \<Rightarrow> TemplateRecord" where
  "ex_record t h p = \<lparr> type = t, host = h, pointsTo = Some p, ttl = None, priority = None,
                        weight = None, port = None \<rparr>"

definition ex_records_template :: Template where
  "ex_records_template = \<lparr> providerId = ''example-provider'', serviceId = ''example-service'',
      name = None, description = None, version = None, hostRequired = None,
      parameters = None,
      records = [ex_record CNAME ''%subdomain%'' ''%target%'', ex_record A ''@'' ''%ip%'',
                 ex_record TXT ''%host%'' ''verification=%code%''],
      logoUrl = None, syncSupported = None, asyncSupported = None \<rparr>"

definition ex_params :: params where
  "ex_params = [(''subdomain'', SString ''www''), (''target'', SString ''example.cdn.com''),
                (''ip'', SString ''192.0.2.1''), (''code'', SString ''abc123'')]"

section \<open>Hostname splitting\<close>

text \<open>\<^verbatim>\<open>hostname.split('.')\<close>: the labels between the dots; a text without a dot is one label.\<close>

fun split_on_dot :: "string \<Rightarrow> string list" where
  "split_on_dot [] = [[]]"
| "split_on_dot (c # cs) =
     (if c = CHR ''.'' then [] # split_on_dot cs
      else (case split_on_dot cs of
              [] \<Rightarrow> [[c]]
            | p # ps \<Rightarrow> (c # p) # ps))"

text \<open>\<^verbatim>\<open>parts.join('.')\<close>.\<close>

fun join_dot :: "string list \<Rightarrow> string" where
  "join_dot [] = []"
| "join_dot [p] = p"
| "join_dot (p # ps) = p @ ''.'' @ join_dot ps"

text \<open>
  \<^verbatim>\<open>parts.slice(-k)\<close>, the last \<open>k\<close> parts (all of them when there are fewer), and
  \<^verbatim>\<open>parts.slice(0, -k)\<close>, the parts before them.
\<close>

definition slice_last :: "nat \<Rightarrow> 'a list \<Rightarrow> 'a list" where
  "slice_last k xs = drop (length xs - k) xs"

definition slice_front :: "nat \<Rightarrow> 'a list \<Rightarrow> 'a list" where
  "slice_front k xs = take (length xs - k) xs"

definition isLower :: "char \<Rightarrow> bool" where
  "isLower c = (97 \<le> (of_char c :: nat) \<and> (of_char c :: nat) \<le> 122)"

text \<open>
  \<^verbatim>\<open>tld.match(/^(co|com|net|org|gov|edu)\.[a-z]{2}$/)\<close>: one of the six words, a dot and two
  lower-case letters, and nothing else.
\<close>

definition sldMatch :: "string \<Rightarrow> bool" where
  "sldMatch tld =
     list_ex (\<lambda>p. take (length p) tld = p
                  \<and> (case drop (length p) tld of
                        [d, a, b] \<Rightarrow> d = CHR ''.'' \<and> isLower a \<and> isLower b
                      | _ \<Rightarrow> False))
       [''co'', ''com'', ''net'', ''org'', ''gov'', ''edu'']"

record HostnameParts =
  domain :: string
  subdomain :: "string option"

definition splitHostname :: "string \<Rightarrow> HostnameParts" where
  "splitHostname hostname =
     (let parts = split_on_dot hostname
      in if length parts > 2 then
           (let tld = join_dot (slice_last 2 parts)
            in if sldMatch tld then
                 (if length parts > 3
                  then \<lparr> domain = join_dot (slice_last 3 parts),
                         subdomain = Some (join_dot (slice_front 3 parts)) \<rparr>
                  else \<lparr> domain = hostname, subdomain = None \<rparr>)
               else \<lparr> domain = join_dot (slice_last 2 parts),
                      subdomain = Some (join_dot (slice_front 2 parts)) \<rparr>)
         else \<lparr> domain = hostname, subdomain = None \<rparr>)"

section \<open>URL construction\<close>

record DomainConnectSettings =
  urlAPI :: string
  syncEnabled :: "bool option"
  asyncEnabled :: "bool option"
  urlAsyncAPI :: "string option"

record DomainConnectOptions =
  domain :: string
  providerId :: string
  serviceId :: string
  params :: params
  host :: "string option"
  redirectUri :: "string option"
  state :: "string option"
  forcePermission :: "bool option"

record DomainConnectResult =
  success :: bool
  redirectUrl :: "string option"
  error :: "string option"
  asyncStatusUrl :: "string option"

text \<open>
  \<^verbatim>\<open>URLSearchParams\<close>: the list of the appended pairs, in the order of the appends. Its
  \<^verbatim>\<open>toString\<close> is the \<^verbatim>\<open>application/x-www-form-urlencoded\<close> serialisation: names and values
  are encoded byte by byte (a string is the list of its UTF-8 bytes), a space as \<^verbatim>\<open>+\<close>, the
  letters, the digits and \<^verbatim>\<open>* - . _\<close> as themselves, every other byte as \<^verbatim>\<open>%\<close> and two
  upper-case hexadecimal digits; the pairs are written \<^verbatim>\<open>name=value\<close> and joined by \<^verbatim>\<open>&\<close>.
\<close>

type_synonym URLSearchParams = "(string \<times> string) list"

definition append_param :: "URLSearchParams \<Rightarrow> string \<Rightarrow> string \<Rightarrow> URLSearchParams" where
  "append_param queryParams key v = queryParams @ [(key, v)]"

definition hex_digit :: "nat \<Rightarrow> char" where
  "hex_digit n = (if n < 10 then char_of (48 + n) else char_of (55 + n))"

definition urlencode_byte :: "char \<Rightarrow> string" where
  "urlencode_byte c =
     (let n = (of_char c :: nat)
      in if n = 32 then ''+''
         else if n = 42 \<or> n = 45 \<or> n = 46 \<or> (48 \<le> n \<and> n \<le> 57) \<or> (65 \<le> n \<and> n \<le> 90)
                 \<or> n = 95 \<or> (97 \<le> n \<and> n \<le> 122)
         then [c]
         else [CHR ''%'', hex_digit (n div 16), hex_digit (n mod 16)])"

definition urlencode :: "string \<Rightarrow> string" where
  "urlencode s = concat (map urlencode_byte s)"

fun join_amp :: "string list \<Rightarrow> string" where
  "join_amp [] = []"
| "join_amp [p] = p"
| "join_amp (p # ps) = p @ ''&'' @ join_amp ps"

definition toString_query :: "URLSearchParams \<Rightarrow> string" where
  "toString_query queryParams =
     join_amp (map (\<lambda>(key, v). urlencode key @ ''='' @ urlencode v) queryParams)"

text \<open>
  \<^verbatim>\<open>Object.entries(params).forEach(([key, value]) => queryParams.append(key, String(value)))\<close>
\<close>

definition append_entries :: "URLSearchParams \<Rightarrow> params \<Rightarrow> URLSearchParams" where
  "append_entries queryParams entries =
     foldl (\<lambda>q (key, v). append_param q key (String_of v)) queryParams entries"

definition generateSyncURL :: "DomainConnectSettings \<Rightarrow> DomainConnectOptions \<Rightarrow> string" where
  "generateSyncURL settings options =
     (let apiUrl = urlAPI settings @ ''/v2/domainTemplates/providers/'' @ providerId options
                     @ ''/services/'' @ serviceId options @ ''/apply'';
          queryParams = [];
          queryParams = append_param queryParams ''domain'' (domain options);
          queryParams = (if truthy_string (host options)
                         then append_param queryParams ''host'' (string_value (host options))
                         else queryParams);
          queryParams = append_entries queryParams (params options)
      in apiUrl @ ''?'' @ toString_query queryParams)"

definition generateAsyncURL ::
  "DomainConnectSettings \<Rightarrow> DomainConnectOptions \<Rightarrow> string option" where
  "generateAsyncURL settings options =
     (if \<not> truthy_bool (asyncEnabled settings) \<or> \<not> truthy_string (urlAsyncAPI settings)
      then None
      else
        (let apiUrl = string_value (urlAsyncAPI settings) @ ''/v2/domainTemplates/providers/''
                        @ providerId options;
             apiUrl = apiUrl @ ''/services/'' @ serviceId options @ ''/apply'';
             queryParams = [];
             queryParams = append_param queryParams ''domain'' (domain options);
             queryParams = (if truthy_string (host options)
                            then append_param queryParams ''host'' (string_value (host options))
                            else queryParams);
             queryParams = (if truthy_string (redirectUri options)
                            then append_param queryParams ''redirect_uri''
                                   (string_value (redirectUri options))
                            else queryParams);
             queryParams = (if truthy_string (state options)
                            then append_param queryParams ''state'' (string_value (state options))
                            else queryParams);
             queryParams = (if truthy_bool (forcePermission options)
                            then append_param queryParams ''force'' ''true''
                            else queryParams);
             queryParams = append_entries queryParams (params options)
         in Some (apiUrl @ ''?'' @ toString_query queryParams)))"

text \<open>The settings and the options of the unit tests of the client.\<close>

definition mockSettings :: DomainConnectSettings where
  "mockSettings = \<lparr> urlAPI = ''https://api.domainconnect.example.com'',
     syncEnabled = Some True, asyncEnabled = Some True,
     urlAsyncAPI = Some ''https://async.domainconnect.example.com'' \<rparr>"

definition ex_options :: DomainConnectOptions where
  "ex_options = \<lparr> domain = ''example.com'', providerId = ''test-provider'',
     serviceId = ''test-service'',
     params = [(''ip'', SString ''192.0.2.1''), (''subdomain'', SString ''www'')],
     host = Some ''blog'', redirectUri = Some ''https://example.com/callback'',
     state = Some ''random-state'', forcePermission = Some True \<rparr>"
section \<open>Network calls\<close>

text \<open>
  What a \<^verbatim>\<open>catch\<close> receives: an \<^verbatim>\<open>Error\<close> with its message, or any other thrown value.
\<close>

datatype js_error = Error string | Thrown

text \<open>
  The response of \<^verbatim>\<open>axios.get\<close>: the status and the body. A body, when there is one, has the
  shape of the settings; no body (or a falsy one) is \<open>None\<close>.
\<close>

record response =
  status :: int
  data :: "DomainConnectSettings option"

text \<open>
  The network answers a request by a response or rejects it. The answer may depend on the
  address and on the number of requests made before. The requests made so far are kept in a
  trace, which every operation takes and returns.
\<close>

type_synonym network = "nat \<Rightarrow> string \<Rightarrow> js_error + response"

type_synonym trace = "string list"

text \<open>
  How a block of statements ends: it runs to its end, it returns a value from the function, or
  it throws. An \<^verbatim>\<open>async\<close> function whose body ends by \<open>Throw\<close> rejects its promise: the failure
  reaches the caller.
\<close>

datatype 'a completion = Normal | Return 'a | Throw js_error

text \<open>\<^verbatim>\<open>await axios.get(url)\<close>, followed by the rest of the block.\<close>

definition await_get ::
  "network \<Rightarrow> string \<Rightarrow> trace \<Rightarrow> (response \<Rightarrow> trace \<Rightarrow> 'a completion \<times> trace)
   \<Rightarrow> 'a completion \<times> trace" where
  "await_get net url tr rest =
     (case net (length tr) url of
        Inl e \<Rightarrow> (Throw e, tr @ [url])
      | Inr r \<Rightarrow> rest r (tr @ [url]))"

text \<open>\<^verbatim>\<open>try { body } catch (error) { handler }\<close>\<close>

definition try_catch ::
  "'a completion \<times> trace \<Rightarrow> (js_error \<Rightarrow> trace \<Rightarrow> 'a completion \<times> trace)
   \<Rightarrow> 'a completion \<times> trace" where
  "try_catch body handler =
     (case body of
        (Throw e, tr) \<Rightarrow> handler e tr
      | (Normal, tr) \<Rightarrow> (Normal, tr)
      | (Return v, tr) \<Rightarrow> (Return v, tr))"

text \<open>\<^verbatim>\<open>error instanceof Error ? error.message : 'Unknown error'\<close>\<close>

definition error_message :: "js_error \<Rightarrow> string" where
  "error_message e = (case e of Error msg \<Rightarrow> msg | Thrown \<Rightarrow> ''Unknown error'')"

definition failure :: "string \<Rightarrow> DomainConnectResult" where
  "failure msg = \<lparr> success = False, redirectUrl = None, error = Some msg,
                   asyncStatusUrl = None \<rparr>"

definition applyTemplateSynchronous ::
  "network \<Rightarrow> DomainConnectSettings \<Rightarrow> DomainConnectOptions \<Rightarrow> trace
   \<Rightarrow> DomainConnectResult completion \<times> trace" where
  "applyTemplateSynchronous net settings options tr =
     try_catch
       (if \<not> truthy_bool (syncEnabled settings)
        then (Return (failure ''Synchronous mode not supported by DNS provider''), tr)
        else
          (let apiUrl = urlAPI settings @ ''/v2/domainTemplates/providers/'' @ providerId options
                          @ ''/services/'' @ serviceId options @ ''/apply'';
               queryParams = [];
               queryParams = append_param queryParams ''domain'' (domain options);
               queryParams = (if truthy_string (host options)
                              then append_param queryParams ''host'' (string_value (host options))
                              else queryParams);
               queryParams = append_entries queryParams (params options);
               apiUrl = apiUrl @ ''?'' @ toString_query queryParams
           in await_get net apiUrl tr
                (\<lambda>response tr'.
                   if status response = 200
                   then (Return \<lparr> success = True, redirectUrl = None, error = None,
                                  asyncStatusUrl = None \<rparr>, tr')
                   else (Return (failure (''Unexpected status code: ''
                                           @ String_of (SNumber (status response)))), tr'))))
       (\<lambda>e tr'. (Return (failure (error_message e)), tr'))"

definition applyTemplateAsynchronous ::
  "network \<Rightarrow> DomainConnectSettings \<Rightarrow> DomainConnectOptions \<Rightarrow> trace
   \<Rightarrow> DomainConnectResult completion \<times> trace" where
  "applyTemplateAsynchronous net settings options tr =
     try_catch
       (if \<not> truthy_bool (asyncEnabled settings) \<or> \<not> truthy_string (urlAsyncAPI settings)
        then (Return (failure ''Asynchronous mode not supported by DNS provider''), tr)
        else
          (let apiUrl = string_value (urlAsyncAPI settings) @ ''/v2/domainTemplates/providers/''
                          @ providerId options;
               apiUrl = apiUrl @ ''/services/'' @ serviceId options @ ''/apply'';
               queryParams = [];
               queryParams = append_param queryParams ''domain'' (domain options);
               queryParams = (if truthy_string (host options)
                              then append_param queryParams ''host'' (string_value (host options))
                              else queryParams);
               queryParams = (if truthy_string (redirectUri options)
                              then append_param queryParams ''redirect_uri''
                                     (string_value (redirectUri options))
                              else queryParams);
               queryParams = (if truthy_string (state options)
                              then append_param queryParams ''state'' (string_value (state options))
                              else queryParams);
               queryParams = (if truthy_bool (forcePermission options)
                              then append_param queryParams ''force'' ''true''
                              else queryParams);
               queryParams = append_entries queryParams (params options);
               apiUrl = apiUrl @ ''?'' @ toString_query queryParams
           in (Return \<lparr> success = True, redirectUrl = Some apiUrl, error = None,
                          asyncStatusUrl = None \<rparr>, tr)))
       (\<lambda>e tr'. (Return (failure (error_message e)), tr'))"

section \<open>Discovery\<close>

text \<open>
  One attempt of the discovery: the request, and the settings copied from the body when the
  status is 200 and there is a body; a rejected request is caught and logged.
\<close>

definition discovery_attempt ::
  "network \<Rightarrow> string \<Rightarrow> trace \<Rightarrow> DomainConnectSettings option completion \<times> trace" where
  "discovery_attempt net url tr =
     try_catch
       (await_get net url tr
          (\<lambda>response tr'.
             case data response of
               Some d \<Rightarrow>
                 if status response = 200
                 then (Return (Some \<lparr> urlAPI = urlAPI d, syncEnabled = syncEnabled d,
                                       asyncEnabled = asyncEnabled d,
                                       urlAsyncAPI = urlAsyncAPI d \<rparr>), tr')
                 else (Normal, tr')
             | None \<Rightarrow> (Normal, tr')))
       (\<lambda>e tr'. (Normal, tr'))"

definition discoverSettings ::
  "network \<Rightarrow> string \<Rightarrow> trace \<Rightarrow> DomainConnectSettings option completion \<times> trace" where
  "discoverSettings net domainName tr =
     try_catch
       (let dnsQuery = ''_domainconnect.'' @ domainName
        in case discovery_attempt net
                  (''https://'' @ dnsQuery @ ''/v2/domainTemplates/providers'') tr of
             (Normal, tr1) \<Rightarrow>
               (case discovery_attempt net
                       (''https://'' @ domainName @ ''/.well-known/domain-connect.json'') tr1 of
                  (Normal, tr2) \<Rightarrow> (Return None, tr2)
                | (Return v, tr2) \<Rightarrow> (Return v, tr2)
                | (Throw e, tr2) \<Rightarrow> (Throw e, tr2))
           | (Return v, tr1) \<Rightarrow> (Return v, tr1)
           | (Throw e, tr1) \<Rightarrow> (Throw e, tr1))
       (\<lambda>e tr'. (Return None, tr'))"

text \<open>
  The network of the second discovery test: the first request is rejected, the second is
  answered with settings.
\<close>

definition fallback_settings :: DomainConnectSettings where
  "fallback_settings = \<lparr> urlAPI = ''https://x'', syncEnabled = Some True,
     asyncEnabled = Some False, urlAsyncAPI = None \<rparr>"

definition fallback_network :: network where
  "fallback_network n url =
     (if n = 0 then Inl (Error ''DNS lookup failed'')
      else Inr \<lparr> status = 200, data = Some fallback_settings \<rparr>)"

definition dead_network :: network where
  "dead_network n url = Inl (Error ''request failed'')"
section \<open>The words of the specification for the query and for a fetch\<close>

text \<open>
  A query parameter that is written only when its value is present: given and not empty.
\<close>

definition optional_param :: "string \<Rightarrow> string option \<Rightarrow> URLSearchParams" where
  "optional_param key v =
     (case v of None \<Rightarrow> [] | Some x \<Rightarrow> if x = [] then [] else [(key, x)])"

text \<open>The entries of the parameter object as query parameters, each value as its string.\<close>

definition entry_params :: "params \<Rightarrow> URLSearchParams" where
  "entry_params entries = map (\<lambda>(key, v). (key, String_of v)) entries"

text \<open>
  The settings of a successful fetch: the request was answered with status 200 and a body.
  A rejected request, another status or a missing body is a failed attempt.
\<close>

definition fetched_settings :: "js_error + response \<Rightarrow> DomainConnectSettings option" where
  "fetched_settings answer =
     (case answer of
        Inl e \<Rightarrow> None
      | Inr r \<Rightarrow> if status r = 200 then data r else None)"

section \<open>Properties\<close>

subsection \<open>Parameter validation\<close>

lemma truthy_bool_iff: "truthy_bool b = (b = Some True)"
  by (auto simp: truthy_bool_def split: option.splits)

lemma getProperty_None_iff:
  "(getProperty ps k = None) = (k \<notin> fst ` set ps \<and> k \<notin> fst ` set objectPrototype)"
proof (cases "map_of ps k")
  case None
  have own: "k \<notin> fst ` set ps"
    using None by (simp add: map_of_eq_None_iff)
  have "(getProperty ps k = None) = (map_of objectPrototype k = None)"
    unfolding getProperty_def None by simp
  then show ?thesis
    using own by (simp add: map_of_eq_None_iff)
next
  case (Some v)
  then have "(k, v) \<in> set ps" by (rule map_of_SomeD)
  then have "k \<in> fst ` set ps" by force
  then show ?thesis using Some by (simp add: getProperty_def)
qed

text \<open>
  What the validator computes: a required name is missing when it is neither a key of the
  parameter object nor the name of an inherited member.
\<close>

lemma validateParameters_missing:
  "parameters t = Some decl \<Longrightarrow>
   snd (validateParameters t ps)
     = map TemplateParameter.name
         (filter (\<lambda>p. required p = Some True \<and> TemplateParameter.name p \<notin> fst ` set ps
                        \<and> TemplateParameter.name p \<notin> fst ` set objectPrototype) decl)
   \<and> fst (validateParameters t ps) = (snd (validateParameters t ps) = [])"
  by (simp add: validateParameters_def Let_def truthy_bool_iff getProperty_None_iff)

lemma validateParameters_unit_tests:
  "validateParameters ex_template [(''count'', SNumber 0), (''required2'', SBoolean False)]
     = (False, [''required1''])
   \<and> validateParameters ex_template [(''required1'', SString [])]
     = (False, [''required2'', ''count''])
   \<and> validateParameters (ex_template \<lparr> parameters := None \<rparr>) [] = (True, [])"
  by (simp add: validateParameters_def ex_template_def ex_param_def truthy_bool_def
        getProperty_def objectPrototype_def)

text \<open>
  C3. The claim that the missing names are exactly the required names that are no key of the
  parameter object, and that valid holds exactly when every required name is a key, fails in
  the code for a required name that the parameter object inherits. For the template that
  requires \<open>toString\<close> and the empty parameter object, where \<open>toString\<close> is no key, the validator
  answers valid with nothing missing: \<^verbatim>\<open>params['toString']\<close> is the inherited function, not
  \<^verbatim>\<open>undefined\<close>.
\<close>

theorem validateParameters_inherited_member:
  "parameters ex_toString_template = Some [ex_param ''toString'' (Some True)]
   \<and> required (ex_param ''toString'' (Some True)) = Some True
   \<and> TemplateParameter.name (ex_param ''toString'' (Some True)) = ''toString''
   \<and> ''toString'' \<notin> fst ` set ([] :: params)
   \<and> validateParameters ex_toString_template [] = (True, [])"
  by (simp add: validateParameters_def ex_toString_template_def ex_template_def ex_param_def
        truthy_bool_def getProperty_def objectPrototype_def)

subsection \<open>Variable substitution\<close>

lemma percent_not_var [simp]: "\<not> isVarChar CHR ''%''"
  by (simp add: isVarChar_def)

lemma matchAt_iff:
  "matchAt text i =
     (\<exists>nm post. drop i text = CHR ''%'' # nm @ CHR ''%'' # post \<and> nm \<noteq> []
                 \<and> (\<forall>c \<in> set nm. isVarChar c))"
proof
  assume m: "matchAt text i"
  from m [unfolded matchAt_def Let_def]
  have t: "drop i text \<noteq> []" "hd (drop i text) = CHR ''%''"
     "takeWhile isVarChar (tl (drop i text)) \<noteq> []"
     "dropWhile isVarChar (tl (drop i text)) \<noteq> []"
     "hd (dropWhile isVarChar (tl (drop i text))) = CHR ''%''"
    by blast+
  obtain r where r: "drop i text = CHR ''%'' # r"
    using t(1,2) by (cases "drop i text") auto
  obtain post where p: "dropWhile isVarChar r = CHR ''%'' # post"
    using t(4,5) unfolding r by (cases "dropWhile isVarChar r") auto
  have "takeWhile isVarChar r @ dropWhile isVarChar r = r"
    by (rule takeWhile_dropWhile_id)
  then have "drop i text = CHR ''%'' # takeWhile isVarChar r @ CHR ''%'' # post"
    unfolding r p by (rule arg_cong [where f = "\<lambda>x. CHR ''%'' # x", OF sym])
  moreover have "takeWhile isVarChar r \<noteq> []"
    using t(3) unfolding r by simp
  moreover have "\<forall>c \<in> set (takeWhile isVarChar r). isVarChar c"
    by (auto dest: set_takeWhileD)
  ultimately show "\<exists>nm post. drop i text = CHR ''%'' # nm @ CHR ''%'' # post \<and> nm \<noteq> []
                     \<and> (\<forall>c \<in> set nm. isVarChar c)"
    by blast
next
  assume "\<exists>nm post. drop i text = CHR ''%'' # nm @ CHR ''%'' # post \<and> nm \<noteq> []
                     \<and> (\<forall>c \<in> set nm. isVarChar c)"
  then obtain nm post where d: "drop i text = CHR ''%'' # nm @ CHR ''%'' # post"
    and n: "nm \<noteq> []" "\<forall>c \<in> set nm. isVarChar c"
    by blast
  have tw: "takeWhile isVarChar (nm @ CHR ''%'' # post) = nm"
    using n(2) by (simp add: takeWhile_append2 takeWhile_tail)
  have dw: "dropWhile isVarChar (nm @ CHR ''%'' # post) = CHR ''%'' # post"
    using n(2) by (simp add: dropWhile_append2)
  show "matchAt text i"
    unfolding matchAt_def Let_def d using n(1) by (simp add: tw dw)
qed

lemma replaceVariables_match:
  assumes "nm \<noteq> []" "\<forall>c \<in> set nm. isVarChar c"
  shows "replaceVariables (CHR ''%'' # nm @ CHR ''%'' # post) ps
         = (case getProperty ps nm of
                  Some v \<Rightarrow> String_of_property v
                | None \<Rightarrow> CHR ''%'' # nm @ ''%'')
           @ replaceVariables post ps"
proof -
  have tw: "takeWhile isVarChar (nm @ CHR ''%'' # post) = nm"
    using assms(2) by (simp add: takeWhile_append2 takeWhile_tail)
  have dw: "dropWhile isVarChar (nm @ CHR ''%'' # post) = CHR ''%'' # post"
    using assms(2) by (simp add: dropWhile_append2)
  show ?thesis
    using assms(1) by (simp add: replaceVariables.simps(2) tw dw)
qed

lemma replaceVariables_skip:
  assumes "\<not> matchAt (c # cs) 0"
  shows "replaceVariables (c # cs) ps = c # replaceVariables cs ps"
proof -
  have no: "\<not> (c = CHR ''%'' \<and> takeWhile isVarChar cs \<noteq> [] \<and> dropWhile isVarChar cs \<noteq> []
              \<and> hd (dropWhile isVarChar cs) = CHR ''%'')"
    using assms unfolding matchAt_def Let_def by simp
  show ?thesis
    by (subst replaceVariables.simps(2)) (simp only: Let_def no if_False)
qed

lemma matchAt_Cons_Suc: "matchAt (c # cs) (Suc i) = matchAt cs i"
  by (simp add: matchAt_def)

lemma replaceVariables_leftmost:
  "nm \<noteq> [] \<Longrightarrow> \<forall>c \<in> set nm. isVarChar c
   \<Longrightarrow> \<forall>i < length pre. \<not> matchAt (pre @ CHR ''%'' # nm @ CHR ''%'' # post) i
   \<Longrightarrow> replaceVariables (pre @ CHR ''%'' # nm @ CHR ''%'' # post) ps
       = pre @ (case getProperty ps nm of
                  Some v \<Rightarrow> String_of_property v
                | None \<Rightarrow> CHR ''%'' # nm @ ''%'')
             @ replaceVariables post ps"
proof (induction pre)
  case Nil
  then show ?case using replaceVariables_match [of nm post ps] by simp
next
  case (Cons c pre)
  from Cons.prems(3) have no0: "\<not> matchAt (c # (pre @ CHR ''%'' # nm @ CHR ''%'' # post)) 0"
    by auto
  have "\<forall>i < length pre. \<not> matchAt (pre @ CHR ''%'' # nm @ CHR ''%'' # post) i"
  proof (intro allI impI)
    fix i assume "i < length pre"
    then have "\<not> matchAt ((c # pre) @ CHR ''%'' # nm @ CHR ''%'' # post) (Suc i)"
      using Cons.prems(3) by auto
    then show "\<not> matchAt (pre @ CHR ''%'' # nm @ CHR ''%'' # post) i"
      by (simp add: matchAt_Cons_Suc)
  qed
  with Cons.IH Cons.prems(1,2) have "replaceVariables (pre @ CHR ''%'' # nm @ CHR ''%'' # post) ps
       = pre @ (case getProperty ps nm of
                  Some v \<Rightarrow> String_of_property v
                | None \<Rightarrow> CHR ''%'' # nm @ ''%'')
             @ replaceVariables post ps" by blast
  then show ?case using replaceVariables_skip [OF no0, of ps] by simp
qed

lemma replaceVariables_no_match:
  "\<forall>i < length text. \<not> matchAt text i \<Longrightarrow> replaceVariables text ps = text"
proof (induction "text")
  case Nil
  then show ?case by simp
next
  case (Cons c cs)
  have no0: "\<not> matchAt (c # cs) 0" using Cons.prems by auto
  have "\<forall>i < length cs. \<not> matchAt cs i"
    using Cons.prems matchAt_Cons_Suc [of c cs] by auto
  then show ?case using Cons.IH replaceVariables_skip [OF no0, of ps] by simp
qed

lemma replaceVariables_unit_tests:
  "replaceVariables ''This is a %variable% with %multiple% replacements''
       [(''variable'', SString ''test''), (''multiple'', SString ''different'')]
     = ''This is a test with different replacements''
   \<and> replaceVariables ''Count: %count%, Enabled: %enabled%''
       [(''count'', SNumber 42), (''enabled'', SBoolean True)]
     = ''Count: 42, Enabled: true''
   \<and> replaceVariables ''This is %undefined% but %defined% is replaced''
       [(''defined'', SString ''value'')]
     = ''This is %undefined% but value is replaced''"
  by code_simp

text \<open>
  C2. The scan is as the claim says (the three lemmas above: the leftmost match, the text
  behind it, a text without a match), and a match whose name is a key of the parameter object
  is replaced by the string of its value. The claim that a match whose name is no key is left
  as it stands fails in the code for a name that the parameter object inherits: for the empty
  parameter object, where \<open>constructor\<close> and \<open>toString\<close> are no keys, the matches
  \<^verbatim>\<open>%constructor%\<close> and \<^verbatim>\<open>%toString%\<close> are replaced by the texts of the inherited functions.
\<close>

theorem replaceVariables_inherited_member:
  "''constructor'' \<notin> fst ` set ([] :: params)
   \<and> replaceVariables ''x=%constructor%'' [] = ''x=function Object() { [native code] }''
   \<and> replaceVariables ''x=%constructor%'' [] \<noteq> ''x=%constructor%''
   \<and> replaceVariables ''%toString%'' [(''a'', SString ''b'')]
       = ''function toString() { [native code] }''"
proof -
  have "replaceVariables ''x=%constructor%'' [] = ''x=function Object() { [native code] }''"
    by code_simp
  moreover have "replaceVariables ''%toString%'' [(''a'', SString ''b'')]
                   = ''function toString() { [native code] }''"
    by code_simp
  ultimately show ?thesis by simp
qed

subsection \<open>Record resolution\<close>

lemma replaceVariables_host_sentinel:
  "map_of ps ''host'' = None \<Longrightarrow> replaceVariables ''%host%'' ps = ''%host%''"
  by (simp add: replaceVariables.simps(2) isVarChar_def getProperty_def objectPrototype_def)

lemma generateRecord_host:
  "TemplateRecord.host (generateRecord ps callerHost r)
     = resolveHost_spec (TemplateRecord.host r) ps callerHost"
  by (simp add: generateRecord_def resolveHost_spec_def Let_def truthy_string_def
        string_value_def split: option.splits)

text \<open>
  C1 (amended). The resolved host of every record is computed in the order of the
  specification: the variables are substituted into the raw host; under a non-empty caller
  host, \<open>@\<close> becomes the caller host and every other value but the literal \<^verbatim>\<open>%host%\<close> gets a
  dot and the caller host appended; at last \<^verbatim>\<open>%host%\<close> becomes the caller host, or \<open>@\<close> without
  one. When the parameter object has no key \<open>host\<close>, a raw host \<^verbatim>\<open>%host%\<close> therefore resolves to
  the caller host when one is given and to \<open>@\<close> otherwise.
\<close>

theorem generateRecords_host_order:
  "map TemplateRecord.host (generateRecords t ps domainName callerHost)
     = map (\<lambda>r. resolveHost_spec (TemplateRecord.host r) ps callerHost) (records t)
   \<and> (map_of ps ''host'' = None \<and> TemplateRecord.host r = ''%host%'' \<longrightarrow>
        TemplateRecord.host (generateRecord ps None r) = ''@''
        \<and> (\<forall>h. h \<noteq> [] \<longrightarrow> TemplateRecord.host (generateRecord ps (Some h) r) = h))"
  by (simp add: generateRecords_def generateRecord_host replaceVariables_host_sentinel
        resolveHost_spec_def)

text \<open>
  C1 as stated fails for a parameter object with the key \<open>host\<close>: the substitution replaces
  the sentinel before it is looked at, and the value is concatenated like any other host.
\<close>

theorem generateRecords_host_counterexample:
  "map TemplateRecord.host
     (generateRecords ex_records_template ((''host'', SString ''app'') # ex_params)
        ''example.com'' (Some ''app''))
     = [''www.app'', ''app'', ''app.app'']"
  by code_simp

theorem generateRecords_host_order_witness:
  "map_of ex_params ''host'' = None
   \<and> map TemplateRecord.host
         (generateRecords ex_records_template ex_params ''example.com'' (Some ''app''))
       = [''www.app'', ''app'', ''app'']
   \<and> map TemplateRecord.host (generateRecords ex_records_template ex_params ''example.com'' None)
       = [''www'', ''@'', ''@'']
   \<and> TemplateRecord.host (generateRecord ex_params (Some ''app'')
                             (ex_record TXT ''%host%'' ''verification=%code%'')) = ''app''
   \<and> TemplateRecord.host (generateRecord ex_params None
                             (ex_record TXT ''%host%'' ''verification=%code%'')) = ''@''"
proof -
  have k: "map_of ex_params ''host'' = None"
    by (simp add: ex_params_def)
  have s: "replaceVariables ''%subdomain%'' ex_params = ''www''"
          "replaceVariables ''@'' ex_params = ''@''"
          "replaceVariables ''%host%'' ex_params = ''%host%''"
    by code_simp+
  show ?thesis
    using generateRecords_host_order [of ex_records_template ex_params "''example.com''"
              "Some ''app''" "ex_record TXT ''%host%'' ''verification=%code%''"]
      generateRecords_host_order [of ex_records_template ex_params "''example.com''" None
              "ex_record TXT ''%host%'' ''verification=%code%''"] k s
    by (simp add: ex_records_template_def ex_record_def resolveHost_spec_def)
qed

lemma dot_concat_not_sentinel: "s @ CHR ''.'' # c \<noteq> ''%host%''"
proof
  assume "s @ CHR ''.'' # c = ''%host%''"
  then have "set (s @ CHR ''.'' # c) = set ''%host%''" by (simp only:)
  moreover have "CHR ''.'' \<in> set (s @ CHR ''.'' # c)" by simp
  ultimately have "CHR ''.'' \<in> set ''%host%''" by (simp only:)
  then show False by simp
qed

lemma resolveHost_spec_cases:
  "resolveHost_spec raw ps callerHost =
     (let s = replaceVariables raw ps
      in case callerHost of
           None \<Rightarrow> if s = ''%host%'' then ''@'' else s
         | Some c \<Rightarrow>
             if c = [] then (if s = ''%host%'' then ''@'' else s)
             else if s = ''@'' \<or> s = ''%host%'' then c
             else s @ ''.'' @ c)"
  by (auto simp: resolveHost_spec_def Let_def dot_concat_not_sentinel split: option.splits)

text \<open>
  C6 (amended). The resolved records answer the records of the template one by one, and the
  host of each is: under a non-empty caller host, the caller host itself or the substituted host followed by a
  dot and the caller host; without a caller host, \<open>@\<close> or the substituted host as it is.
\<close>

theorem generateRecords_host_invariant:
  "list_all2
     (\<lambda>r r'.
        if truthy_string callerHost
        then TemplateRecord.host r' = string_value callerHost
             \<or> TemplateRecord.host r'
                 = replaceVariables (TemplateRecord.host r) ps @ ''.'' @ string_value callerHost
        else TemplateRecord.host r' = ''@''
             \<or> TemplateRecord.host r' = replaceVariables (TemplateRecord.host r) ps)
     (records t) (generateRecords t ps domainName callerHost)"
proof -
  have "\<forall>r \<in> set (records t).
          if truthy_string callerHost
          then TemplateRecord.host (generateRecord ps callerHost r) = string_value callerHost
               \<or> TemplateRecord.host (generateRecord ps callerHost r)
                   = replaceVariables (TemplateRecord.host r) ps @ ''.'' @ string_value callerHost
          else TemplateRecord.host (generateRecord ps callerHost r) = ''@''
               \<or> TemplateRecord.host (generateRecord ps callerHost r)
                   = replaceVariables (TemplateRecord.host r) ps"
    unfolding generateRecord_host resolveHost_spec_cases
    by (simp add: Let_def truthy_string_def string_value_def split: option.splits)
  then show ?thesis
    unfolding generateRecords_def list_all2_map2 list_all2_same .
qed

text \<open>
  C6 as stated fails without a caller host: the first record of the unit test resolves to
  \<open>www\<close>, which is not \<open>@\<close> and holds no dot.
\<close>

theorem generateRecords_host_invariant_counterexample:
  "map TemplateRecord.host (generateRecords ex_records_template ex_params ''example.com'' None)
     = [''www'', ''@'', ''@'']
   \<and> ''www'' \<noteq> ''@'' \<and> CHR ''.'' \<notin> set ''www''"
proof -
  have "map TemplateRecord.host
          (generateRecords ex_records_template ex_params ''example.com'' None)
     = [''www'', ''@'', ''@'']"
    by code_simp
  then show ?thesis by simp
qed

theorem generateRecords_host_invariant_witness:
  "generateRecords ex_records_template ex_params ''example.com'' (Some ''blog'') \<noteq> []
   \<and> list_all
        (\<lambda>r'. TemplateRecord.host r' \<in> {''blog'', ''www.blog'', ''@.blog'', ''%host%.blog''})
        (generateRecords ex_records_template ex_params ''example.com'' (Some ''blog''))"
proof -
  have s: "replaceVariables ''%subdomain%'' ex_params = ''www''"
          "replaceVariables ''@'' ex_params = ''@''"
          "replaceVariables ''%host%'' ex_params = ''%host%''"
    by code_simp+
  obtain a b c where g:
    "generateRecords ex_records_template ex_params ''example.com'' (Some ''blog'') = [a, b, c]"
    by (simp add: generateRecords_def ex_records_template_def)
  show ?thesis
    using generateRecords_host_invariant
            [where callerHost = "Some ''blog''" and ps = ex_params and t = ex_records_template
               and domainName = "''example.com''"] s
    unfolding g
    by (auto simp: ex_records_template_def ex_record_def truthy_string_def string_value_def)
qed

subsection \<open>Hostname splitting\<close>

lemma split_on_dot_nonempty: "split_on_dot s \<noteq> []"
  by (induction s) (auto split: list.splits)

lemma join_dot_Cons: "ps \<noteq> [] \<Longrightarrow> join_dot (p # ps) = p @ ''.'' @ join_dot ps"
  by (cases ps) simp_all

lemma join_split_on_dot: "join_dot (split_on_dot s) = s"
proof (induction s)
  case Nil
  show ?case by simp
next
  case (Cons c cs)
  show ?case
  proof (cases "c = CHR ''.''")
    case True
    then show ?thesis
      using Cons split_on_dot_nonempty [of cs] by (simp add: join_dot_Cons)
  next
    case False
    obtain p ps where sp: "split_on_dot cs = p # ps"
      using split_on_dot_nonempty [of cs] by (cases "split_on_dot cs") auto
    show ?thesis
    proof (cases ps)
      case Nil
      then show ?thesis using False sp Cons by simp
    next
      case (Cons q qs)
      then show ?thesis using False sp Cons.IH by simp
    qed
  qed
qed

lemma sldMatch_prefix:
  "(take (length p) tld = p
      \<and> (case drop (length p) tld of
            [d, a, b] \<Rightarrow> d = CHR ''.'' \<and> isLower a \<and> isLower b
          | _ \<Rightarrow> False))
   = (\<exists>a b. tld = p @ [CHR ''.'', a, b] \<and> isLower a \<and> isLower b)"
proof
  assume l: "take (length p) tld = p
      \<and> (case drop (length p) tld of
            [d, a, b] \<Rightarrow> d = CHR ''.'' \<and> isLower a \<and> isLower b
          | _ \<Rightarrow> False)"
  then obtain a b where d: "drop (length p) tld = [CHR ''.'', a, b]" "isLower a" "isLower b"
    by (auto split: list.splits)
  have "tld = take (length p) tld @ drop (length p) tld"
    by simp
  then have "tld = p @ [CHR ''.'', a, b]"
    using l d(1) by simp
  then show "\<exists>a b. tld = p @ [CHR ''.'', a, b] \<and> isLower a \<and> isLower b"
    using d(2,3) by blast
next
  assume "\<exists>a b. tld = p @ [CHR ''.'', a, b] \<and> isLower a \<and> isLower b"
  then show "take (length p) tld = p
      \<and> (case drop (length p) tld of
            [d, a, b] \<Rightarrow> d = CHR ''.'' \<and> isLower a \<and> isLower b
          | _ \<Rightarrow> False)"
    by auto
qed

lemma sldMatch_iff:
  "sldMatch tld =
     (\<exists>p a b. p \<in> {''co'', ''com'', ''net'', ''org'', ''gov'', ''edu''}
              \<and> tld = p @ [CHR ''.'', a, b] \<and> isLower a \<and> isLower b)"
  unfolding sldMatch_def list_ex_iff sldMatch_prefix list.set Bex_def by blast

lemma splitHostname_few:
  "length (split_on_dot h) \<le> 2 \<Longrightarrow> splitHostname h = \<lparr> HostnameParts.domain = h, subdomain = None \<rparr>"
  by (simp add: splitHostname_def)

lemma splitHostname_sld:
  "length (split_on_dot h) > 2 \<Longrightarrow>
   sldMatch (join_dot (drop (length (split_on_dot h) - 2) (split_on_dot h))) \<Longrightarrow>
   splitHostname h =
     (if length (split_on_dot h) > 3
      then \<lparr> HostnameParts.domain = join_dot (drop (length (split_on_dot h) - 3) (split_on_dot h)),
             subdomain = Some (join_dot (take (length (split_on_dot h) - 3) (split_on_dot h))) \<rparr>
      else \<lparr> HostnameParts.domain = h, subdomain = None \<rparr>)"
  by (simp add: splitHostname_def Let_def slice_last_def slice_front_def)

lemma splitHostname_plain:
  "length (split_on_dot h) > 2 \<Longrightarrow>
   \<not> sldMatch (join_dot (drop (length (split_on_dot h) - 2) (split_on_dot h))) \<Longrightarrow>
   splitHostname h =
     \<lparr> HostnameParts.domain = join_dot (drop (length (split_on_dot h) - 2) (split_on_dot h)),
       subdomain = Some (join_dot (take (length (split_on_dot h) - 2) (split_on_dot h))) \<rparr>"
  by (simp add: splitHostname_def Let_def slice_last_def slice_front_def)

text \<open>
  C4. With the labels of the hostname (its parts between the dots): at most two labels give
  the hostname as the domain and no subdomain. With more, when the last two labels joined by
  a dot match the pattern of second-level domains, four or more labels give the last three
  as the domain and the labels before them as the subdomain, and exactly three give the whole
  hostname and no subdomain; when they do not match, the last two labels are the domain and
  the labels before them the subdomain. The three examples of the specification follow.
\<close>

theorem splitHostname_cases:
  "(let parts = split_on_dot h; n = length parts; tld = join_dot (drop (n - 2) parts)
    in (n \<le> 2 \<longrightarrow> splitHostname h = \<lparr> HostnameParts.domain = h, subdomain = None \<rparr>)
     \<and> (n \<ge> 4 \<and> sldMatch tld \<longrightarrow>
          splitHostname h = \<lparr> HostnameParts.domain = join_dot (drop (n - 3) parts),
                              subdomain = Some (join_dot (take (n - 3) parts)) \<rparr>)
     \<and> (n = 3 \<and> sldMatch tld \<longrightarrow> splitHostname h = \<lparr> HostnameParts.domain = h, subdomain = None \<rparr>)
     \<and> (n > 2 \<and> \<not> sldMatch tld \<longrightarrow>
          splitHostname h = \<lparr> HostnameParts.domain = join_dot (drop (n - 2) parts),
                              subdomain = Some (join_dot (take (n - 2) parts)) \<rparr>))
   \<and> splitHostname ''www.example.com'' = \<lparr> HostnameParts.domain = ''example.com'', subdomain = Some ''www'' \<rparr>
   \<and> splitHostname ''example.co.uk'' = \<lparr> HostnameParts.domain = ''example.co.uk'', subdomain = None \<rparr>
   \<and> splitHostname ''www.example.co.uk''
       = \<lparr> HostnameParts.domain = ''example.co.uk'', subdomain = Some ''www'' \<rparr>"
proof -
  have e1: "splitHostname ''www.example.com''
              = \<lparr> HostnameParts.domain = ''example.com'', subdomain = Some ''www'' \<rparr>"
    by code_simp
  have e2: "splitHostname ''example.co.uk'' = \<lparr> HostnameParts.domain = ''example.co.uk'', subdomain = None \<rparr>"
    by code_simp
  have e3: "splitHostname ''www.example.co.uk''
              = \<lparr> HostnameParts.domain = ''example.co.uk'', subdomain = Some ''www'' \<rparr>"
    by code_simp
  have c1: "length (split_on_dot h) \<le> 2 \<longrightarrow>
              splitHostname h = \<lparr> HostnameParts.domain = h, subdomain = None \<rparr>"
    by (simp add: splitHostname_few)
  have c2: "length (split_on_dot h) \<ge> 4
            \<and> sldMatch (join_dot (drop (length (split_on_dot h) - 2) (split_on_dot h))) \<longrightarrow>
          splitHostname h =
            \<lparr> HostnameParts.domain = join_dot (drop (length (split_on_dot h) - 3) (split_on_dot h)),
              subdomain = Some (join_dot (take (length (split_on_dot h) - 3) (split_on_dot h))) \<rparr>"
    by (simp add: splitHostname_sld)
  have c3: "length (split_on_dot h) = 3
            \<and> sldMatch (join_dot (drop (length (split_on_dot h) - 2) (split_on_dot h))) \<longrightarrow>
          splitHostname h = \<lparr> HostnameParts.domain = h, subdomain = None \<rparr>"
  proof (intro impI, elim conjE)
    assume a: "length (split_on_dot h) = 3"
      and m: "sldMatch (join_dot (drop (length (split_on_dot h) - 2) (split_on_dot h)))"
    have "2 < length (split_on_dot h)" using a by simp
    from splitHostname_sld [OF this m] a
    show "splitHostname h = \<lparr> HostnameParts.domain = h, subdomain = None \<rparr>" by simp
  qed
  have c4: "length (split_on_dot h) > 2
            \<and> \<not> sldMatch (join_dot (drop (length (split_on_dot h) - 2) (split_on_dot h))) \<longrightarrow>
          splitHostname h =
            \<lparr> HostnameParts.domain = join_dot (drop (length (split_on_dot h) - 2) (split_on_dot h)),
              subdomain = Some (join_dot (take (length (split_on_dot h) - 2) (split_on_dot h))) \<rparr>"
    by (simp add: splitHostname_plain)
  show ?thesis
    unfolding Let_def using c1 c2 c3 c4 e1 e2 e3 by blast
qed

theorem splitHostname_cases_witness:
  "length (split_on_dot ''a.b.example.org.au'') = 5
   \<and> sldMatch ''org.au''
   \<and> splitHostname ''a.b.example.org.au''
       = \<lparr> HostnameParts.domain = ''example.org.au'', subdomain = Some ''a.b'' \<rparr>
   \<and> length (split_on_dot ''sub.domain.example.com'') = 4
   \<and> \<not> sldMatch ''example.com''
   \<and> splitHostname ''sub.domain.example.com''
       = \<lparr> HostnameParts.domain = ''example.com'', subdomain = Some ''sub.domain'' \<rparr>
   \<and> length (split_on_dot ''example.com'') = 2
   \<and> splitHostname ''example.com'' = \<lparr> HostnameParts.domain = ''example.com'', subdomain = None \<rparr>
   \<and> length (split_on_dot ''shop.com.au'') = 3
   \<and> sldMatch ''com.au''
   \<and> splitHostname ''shop.com.au'' = \<lparr> HostnameParts.domain = ''shop.com.au'', subdomain = None \<rparr>"
proof -
  have p: "split_on_dot ''a.b.example.org.au'' = [''a'', ''b'', ''example'', ''org'', ''au'']"
          "split_on_dot ''sub.domain.example.com'' = [''sub'', ''domain'', ''example'', ''com'']"
          "split_on_dot ''example.com'' = [''example'', ''com'']"
          "split_on_dot ''shop.com.au'' = [''shop'', ''com'', ''au'']"
    by code_simp+
  have m: "sldMatch ''org.au''" "\<not> sldMatch ''example.com''" "sldMatch ''com.au''"
    by code_simp+
  show ?thesis
    using splitHostname_cases [of "''a.b.example.org.au''"]
      splitHostname_cases [of "''sub.domain.example.com''"]
      splitHostname_cases [of "''example.com''"]
      splitHostname_cases [of "''shop.com.au''"] p m
    by (simp add: Let_def)
qed

subsection \<open>URL construction\<close>

lemma append_entries_eq: "append_entries q es = q @ entry_params es"
  unfolding append_entries_def entry_params_def
  by (induction es arbitrary: q) (auto simp: append_param_def)

lemma optional_param_eq:
  "(if truthy_string v then append_param q key (string_value v) else q)
     = q @ optional_param key v"
  by (auto simp: truthy_string_def optional_param_def append_param_def string_value_def
        split: option.splits)

text \<open>
  C5. The synchronous URL is the API address of the settings, the apply path of the provider
  and the service, a question mark and the encoded query, whose parameters are, in this
  order: \<open>domain\<close>, always; \<open>host\<close>, when a host is present (given and not empty); then every
  entry of the parameter object in its order, the value as the string that the substitution
  writes for it.
\<close>

theorem generateSyncURL_shape:
  "generateSyncURL s opts
     = urlAPI s @ ''/v2/domainTemplates/providers/'' @ providerId opts @ ''/services/''
         @ serviceId opts @ ''/apply'' @ ''?''
         @ toString_query ([(''domain'', domain opts)] @ optional_param ''host'' (host opts)
                            @ entry_params (params opts))"
  by (simp add: generateSyncURL_def Let_def append_entries_eq optional_param_eq
        append_param_def)

theorem generateSyncURL_shape_witness:
  "generateSyncURL mockSettings ex_options
     = ''https://api.domainconnect.example.com/v2/domainTemplates/providers/test-provider/services/test-service/apply?domain=example.com&host=blog&ip=192.0.2.1&subdomain=www''
   \<and> generateSyncURL mockSettings (ex_options\<lparr>host := Some [], params := [(''n'', SNumber 42), (''a b'', SBoolean False)]\<rparr>)
     = ''https://api.domainconnect.example.com/v2/domainTemplates/providers/test-provider/services/test-service/apply?domain=example.com&n=42&a+b=false''"
proof -
  have q: "toString_query [(''domain'', ''example.com''), (''host'', ''blog''),
                           (''ip'', ''192.0.2.1''), (''subdomain'', ''www'')]
             = ''domain=example.com&host=blog&ip=192.0.2.1&subdomain=www''"
          "toString_query [(''domain'', ''example.com''), (''n'', ''42''), (''a b'', ''false'')]
             = ''domain=example.com&n=42&a+b=false''"
    by code_simp+
  have n: "string_of_nat 42 = ''42''"
    by code_simp
  show ?thesis
    using generateSyncURL_shape [of mockSettings ex_options]
      generateSyncURL_shape [of mockSettings "ex_options\<lparr>host := Some [], params := [(''n'', SNumber 42), (''a b'', SBoolean False)]\<rparr>"]
      q n
    by (simp add: mockSettings_def ex_options_def optional_param_def entry_params_def)
qed

lemma generateAsyncURL_enabled:
  "truthy_bool (asyncEnabled s) \<Longrightarrow> truthy_string (urlAsyncAPI s) \<Longrightarrow>
   generateAsyncURL s opts
     = Some (string_value (urlAsyncAPI s) @ ''/v2/domainTemplates/providers/'' @ providerId opts
              @ ''/services/'' @ serviceId opts @ ''/apply'' @ ''?''
              @ toString_query ([(''domain'', domain opts)] @ optional_param ''host'' (host opts)
                  @ optional_param ''redirect_uri'' (redirectUri opts)
                  @ optional_param ''state'' (state opts)
                  @ (if truthy_bool (forcePermission opts) then [(''force'', ''true'')] else [])
                  @ entry_params (params opts)))"
  by (simp add: generateAsyncURL_def Let_def append_entries_eq optional_param_eq
        append_param_def)

lemma applyTemplateAsynchronous_disabled:
  "\<not> truthy_bool (asyncEnabled s) \<or> \<not> truthy_string (urlAsyncAPI s) \<Longrightarrow>
   applyTemplateAsynchronous net s opts tr
     = (Return (failure ''Asynchronous mode not supported by DNS provider''), tr)"
  by (auto simp: applyTemplateAsynchronous_def try_catch_def)

lemma applyTemplateAsynchronous_enabled:
  "truthy_bool (asyncEnabled s) \<Longrightarrow> truthy_string (urlAsyncAPI s) \<Longrightarrow>
   applyTemplateAsynchronous net s opts tr
     = (Return \<lparr> success = True, redirectUrl = generateAsyncURL s opts, error = None,
                  asyncStatusUrl = None \<rparr>, tr)"
  by (simp add: applyTemplateAsynchronous_def generateAsyncURL_def try_catch_def Let_def)

lemma applyTemplateSynchronous_disabled:
  "\<not> truthy_bool (syncEnabled s) \<Longrightarrow>
   applyTemplateSynchronous net s opts tr
     = (Return (failure ''Synchronous mode not supported by DNS provider''), tr)"
  by (simp add: applyTemplateSynchronous_def try_catch_def)

text \<open>
  C7. When \<open>asyncEnabled\<close> is falsy or \<open>urlAsyncAPI\<close> is absent (not given, or empty, as the code
  tests it), the asynchronous URL is \<open>null\<close> and the wrapper leaves the trace of requests as
  it was. Otherwise the URL is the asynchronous API address, the apply path, a question mark
  and the encoded query with, in this order: \<open>domain\<close>; \<open>host\<close>, \<open>redirect_uri\<close> and \<open>state\<close>, each when
  present; \<open>force=true\<close> when \<open>forcePermission\<close> is truthy; then the entries of the parameter
  object. Every value, the redirect address included, is percent-encoded by the query.
\<close>

theorem generateAsyncURL_shape:
  "(\<not> truthy_bool (asyncEnabled s) \<or> \<not> truthy_string (urlAsyncAPI s) \<longrightarrow>
      generateAsyncURL s opts = None \<and> snd (applyTemplateAsynchronous net s opts tr) = tr)
   \<and> (truthy_bool (asyncEnabled s) \<and> truthy_string (urlAsyncAPI s) \<longrightarrow>
      generateAsyncURL s opts
        = Some (string_value (urlAsyncAPI s) @ ''/v2/domainTemplates/providers/''
                 @ providerId opts @ ''/services/'' @ serviceId opts @ ''/apply'' @ ''?''
                 @ toString_query ([(''domain'', domain opts)]
                     @ optional_param ''host'' (host opts)
                     @ optional_param ''redirect_uri'' (redirectUri opts)
                     @ optional_param ''state'' (state opts)
                     @ (if truthy_bool (forcePermission opts) then [(''force'', ''true'')] else [])
                     @ entry_params (params opts))))"
proof -
  have "\<not> truthy_bool (asyncEnabled s) \<or> \<not> truthy_string (urlAsyncAPI s) \<longrightarrow>
      generateAsyncURL s opts = None \<and> snd (applyTemplateAsynchronous net s opts tr) = tr"
    using applyTemplateAsynchronous_disabled [of s net opts tr]
    by (auto simp: generateAsyncURL_def)
  then show ?thesis
    using generateAsyncURL_enabled [of s opts] by blast
qed

theorem generateAsyncURL_shape_witness:
  "truthy_bool (asyncEnabled mockSettings) \<and> truthy_string (urlAsyncAPI mockSettings)
   \<and> generateAsyncURL mockSettings ex_options
     = Some ''https://async.domainconnect.example.com/v2/domainTemplates/providers/test-provider/services/test-service/apply?domain=example.com&host=blog&redirect_uri=https%3A%2F%2Fexample.com%2Fcallback&state=random-state&force=true&ip=192.0.2.1&subdomain=www''
   \<and> \<not> truthy_bool (asyncEnabled (mockSettings\<lparr>asyncEnabled := Some False\<rparr>))
   \<and> generateAsyncURL (mockSettings\<lparr>asyncEnabled := Some False\<rparr>) ex_options = None
   \<and> snd (applyTemplateAsynchronous dead_network (mockSettings\<lparr>asyncEnabled := Some False\<rparr>)
            ex_options []) = []
   \<and> \<not> truthy_string (urlAsyncAPI (mockSettings\<lparr>urlAsyncAPI := None\<rparr>))
   \<and> generateAsyncURL (mockSettings\<lparr>urlAsyncAPI := None\<rparr>) ex_options = None"
proof -
  have q: "toString_query [(''domain'', ''example.com''), (''host'', ''blog''),
              (''redirect_uri'', ''https://example.com/callback''), (''state'', ''random-state''),
              (''force'', ''true''), (''ip'', ''192.0.2.1''), (''subdomain'', ''www'')]
             = ''domain=example.com&host=blog&redirect_uri=https%3A%2F%2Fexample.com%2Fcallback&state=random-state&force=true&ip=192.0.2.1&subdomain=www''"
    by code_simp
  show ?thesis
    using generateAsyncURL_shape [of mockSettings ex_options dead_network "[]"]
      generateAsyncURL_shape [of "mockSettings\<lparr>asyncEnabled := Some False\<rparr>" ex_options
        dead_network "[]"]
      generateAsyncURL_shape [of "mockSettings\<lparr>urlAsyncAPI := None\<rparr>" ex_options
        dead_network "[]"] q
    by (simp add: mockSettings_def ex_options_def optional_param_def entry_params_def
          truthy_bool_def truthy_string_def string_value_def)
qed
subsection \<open>Apply wrappers\<close>

text \<open>
  C8. When \<open>syncEnabled\<close> is falsy, the synchronous apply answers the failure
  \<^verbatim>\<open>Synchronous mode not supported by DNS provider\<close>; when \<open>asyncEnabled\<close> is falsy or
  \<open>urlAsyncAPI\<close> is missing (not given, or empty), the asynchronous apply answers the failure
  \<^verbatim>\<open>Asynchronous mode not supported by DNS provider\<close>. In both cases the trace of requests is
  returned as it was given, whatever the network would have answered: no request is made.
\<close>

theorem apply_not_supported:
  "(\<not> truthy_bool (syncEnabled s) \<longrightarrow>
      applyTemplateSynchronous net s opts tr
        = (Return \<lparr> success = False, redirectUrl = None,
                     error = Some ''Synchronous mode not supported by DNS provider'',
                     asyncStatusUrl = None \<rparr>, tr))
   \<and> (\<not> truthy_bool (asyncEnabled s) \<or> \<not> truthy_string (urlAsyncAPI s) \<longrightarrow>
      applyTemplateAsynchronous net s opts tr
        = (Return \<lparr> success = False, redirectUrl = None,
                     error = Some ''Asynchronous mode not supported by DNS provider'',
                     asyncStatusUrl = None \<rparr>, tr))"
  using applyTemplateSynchronous_disabled [of s net opts tr]
    applyTemplateAsynchronous_disabled [of s net opts tr]
  by (simp add: failure_def)

theorem apply_not_supported_witness:
  "\<not> truthy_bool (syncEnabled (mockSettings\<lparr>syncEnabled := Some False\<rparr>))
   \<and> applyTemplateSynchronous fallback_network (mockSettings\<lparr>syncEnabled := Some False\<rparr>)
        ex_options []
       = (Return \<lparr> success = False, redirectUrl = None,
                    error = Some ''Synchronous mode not supported by DNS provider'',
                    asyncStatusUrl = None \<rparr>, [])
   \<and> \<not> truthy_string (urlAsyncAPI (mockSettings\<lparr>urlAsyncAPI := None\<rparr>))
   \<and> applyTemplateAsynchronous fallback_network (mockSettings\<lparr>urlAsyncAPI := None\<rparr>)
        ex_options []
       = (Return \<lparr> success = False, redirectUrl = None,
                    error = Some ''Asynchronous mode not supported by DNS provider'',
                    asyncStatusUrl = None \<rparr>, [])"
  using apply_not_supported [of "mockSettings\<lparr>syncEnabled := Some False\<rparr>"
          fallback_network ex_options "[]"]
    apply_not_supported [of "mockSettings\<lparr>urlAsyncAPI := None\<rparr>"
          fallback_network ex_options "[]"]
  by (simp add: mockSettings_def truthy_bool_def truthy_string_def)

text \<open>
  C10. With \<open>asyncEnabled\<close> truthy and \<open>urlAsyncAPI\<close> present, the asynchronous apply makes no
  request (the trace is returned as it was given) and answers success with a redirect URL,
  which is the very URL that \<open>generateAsyncURL\<close> returns for the same settings and options.
\<close>

theorem applyTemplateAsynchronous_redirect:
  "truthy_bool (asyncEnabled s) \<and> truthy_string (urlAsyncAPI s) \<longrightarrow>
     (\<exists>u. generateAsyncURL s opts = Some u
        \<and> applyTemplateAsynchronous net s opts tr
            = (Return \<lparr> success = True, redirectUrl = Some u, error = None,
                         asyncStatusUrl = None \<rparr>, tr))"
  using applyTemplateAsynchronous_enabled [of s net opts tr] generateAsyncURL_enabled [of s opts]
  by simp

theorem applyTemplateAsynchronous_redirect_witness:
  "truthy_bool (asyncEnabled mockSettings) \<and> truthy_string (urlAsyncAPI mockSettings)
   \<and> applyTemplateAsynchronous dead_network mockSettings ex_options [''earlier'']
       = (Return \<lparr> success = True, redirectUrl = generateAsyncURL mockSettings ex_options,
                    error = None, asyncStatusUrl = None \<rparr>, [''earlier''])
   \<and> generateAsyncURL mockSettings ex_options \<noteq> None"
  using applyTemplateAsynchronous_redirect [of mockSettings ex_options dead_network "[''earlier'']"]
  by (auto simp: mockSettings_def truthy_bool_def truthy_string_def)

subsection \<open>Discovery\<close>

lemma discovery_attempt_eq:
  "discovery_attempt net url tr
     = (case fetched_settings (net (length tr) url) of
          Some st \<Rightarrow> (Return (Some st), tr @ [url])
        | None \<Rightarrow> (Normal, tr @ [url]))"
  by (auto simp: discovery_attempt_def await_get_def try_catch_def fetched_settings_def
        split: sum.splits option.splits)

text \<open>
  C9. The discovery first requests the well-known path under the \<^verbatim>\<open>_domainconnect.\<close>
  subdomain. When that fetch succeeds, its settings are the answer and nothing else is
  requested. On any failure of it (a rejected request, a status other than 200, no body) the
  path under the domain itself is requested, and the answer is the settings of that fetch when
  it succeeds and \<open>null\<close> when it fails too. In every case the discovery returns a value: no
  failure of a fetch reaches the caller.
\<close>

theorem discoverSettings_fallback:
  "discoverSettings net d tr
     = (case fetched_settings
               (net (length tr) (''https://_domainconnect.'' @ d @ ''/v2/domainTemplates/providers''))
        of Some st \<Rightarrow>
             (Return (Some st), tr @ [''https://_domainconnect.'' @ d @ ''/v2/domainTemplates/providers''])
         | None \<Rightarrow>
             (Return (fetched_settings
                        (net (Suc (length tr)) (''https://'' @ d @ ''/.well-known/domain-connect.json''))),
              tr @ [''https://_domainconnect.'' @ d @ ''/v2/domainTemplates/providers'',
                    ''https://'' @ d @ ''/.well-known/domain-connect.json'']))
   \<and> (\<exists>v. fst (discoverSettings net d tr) = Return v)"
proof -
  have eq: "discoverSettings net d tr
     = (case fetched_settings
               (net (length tr) (''https://_domainconnect.'' @ d @ ''/v2/domainTemplates/providers''))
        of Some st \<Rightarrow>
             (Return (Some st), tr @ [''https://_domainconnect.'' @ d @ ''/v2/domainTemplates/providers''])
         | None \<Rightarrow>
             (Return (fetched_settings
                        (net (Suc (length tr)) (''https://'' @ d @ ''/.well-known/domain-connect.json''))),
              tr @ [''https://_domainconnect.'' @ d @ ''/v2/domainTemplates/providers'',
                    ''https://'' @ d @ ''/.well-known/domain-connect.json'']))"
    by (simp add: discoverSettings_def discovery_attempt_eq try_catch_def Let_def
          split: option.splits)
  then have "\<exists>v. fst (discoverSettings net d tr) = Return v"
    by (simp split: option.splits)
  with eq show ?thesis by blast
qed

theorem discoverSettings_fallback_witness:
  "discoverSettings fallback_network ''example.com'' []
     = (Return (Some fallback_settings),
        [''https://_domainconnect.example.com/v2/domainTemplates/providers'',
         ''https://example.com/.well-known/domain-connect.json''])
   \<and> discoverSettings dead_network ''example.com'' []
     = (Return None,
        [''https://_domainconnect.example.com/v2/domainTemplates/providers'',
         ''https://example.com/.well-known/domain-connect.json''])
   \<and> discoverSettings (\<lambda>n url. Inr \<lparr> status = 200, data = Some fallback_settings \<rparr>)
        ''example.com'' []
     = (Return (Some fallback_settings),
        [''https://_domainconnect.example.com/v2/domainTemplates/providers''])"
  using discoverSettings_fallback [of fallback_network "''example.com''" "[]"]
    discoverSettings_fallback [of dead_network "''example.com''" "[]"]
    discoverSettings_fallback [of "\<lambda>n url. Inr \<lparr> status = 200, data = Some fallback_settings \<rparr>"
       "''example.com''" "[]"]
  by (simp add: fallback_network_def dead_network_def fetched_settings_def)

end
